theory Spec2Isabelle
  imports Complex_Main "HOL-Library.Word" "HOL-Library.AList"
begin

section \<open>The JavaScript values the frontend computes with\<close>

text \<open>
  A JavaScript string is a sequence of UTF-16 code units; \<open>s.length\<close> counts them and a
  string is falsy exactly when it is empty. A \<open>number\<close> is an IEEE 754 binary64 value; a
  finite one is written as the real it stands for. Numbers the frontend only stores and
  passes on are written as their decimals. The one place it computes with a number, the
  product \<open>confidence * 100\<close> of the badge, rounds as the double multiplication does.
\<close>

type_synonym jsstring = "16 word list"

definition js :: "string \<Rightarrow> jsstring" where
  "js s = map of_char s"

text \<open>
  \<open>String.prototype.trim\<close> strips WhiteSpace and LineTerminator code points from both
  ends (ECMAScript, 22.1.3.32): TAB, LF, VT, FF, CR, SP, NBSP, the Unicode space
  separators, LS, PS and the byte order mark.
\<close>

definition isWhiteSpace :: "16 word \<Rightarrow> bool" where
  "isWhiteSpace c \<longleftrightarrow>
     c = 0x0009 \<or> c = 0x000A \<or> c = 0x000B \<or> c = 0x000C \<or> c = 0x000D \<or> c = 0x0020 \<or>
     c = 0x00A0 \<or> c = 0x1680 \<or> (0x2000 \<le> c \<and> c \<le> 0x200A) \<or> c = 0x2028 \<or>
     c = 0x2029 \<or> c = 0x202F \<or> c = 0x205F \<or> c = 0x3000 \<or> c = 0xFEFF"

definition trim :: "jsstring \<Rightarrow> jsstring" where
  "trim s = rev (dropWhile isWhiteSpace (rev (dropWhile isWhiteSpace s)))"

text \<open>\<open>s.split(sep)\<close> for a separator of one code unit: \<open>n\<close> separators give \<open>n + 1\<close> pieces.\<close>

fun split :: "16 word \<Rightarrow> jsstring \<Rightarrow> jsstring list" where
  "split sep [] = [[]]"
| "split sep (c # cs) =
     (if c = sep then [] # split sep cs
      else (case split sep cs of
              [] \<Rightarrow> [[c]]
            | w # ws \<Rightarrow> (c # w) # ws))"

text \<open>
  The binary exponent of a positive real: the \<open>k\<close> with \<open>2 ^ k \<le> x < 2 ^ (k + 1)\<close>, found by
  doubling or halving \<open>x\<close> until it lies in \<open>[1, 2)\<close>.
\<close>

function ilog2 :: "real \<Rightarrow> int" where
  "ilog2 x =
     (if x \<le> 0 then 0
      else if x < 1 then ilog2 (2 * x) - 1
      else if 2 \<le> x then ilog2 (x / 2) + 1
      else 0)"
  by pat_completeness auto
termination
proof (relation "measure (\<lambda>x. if x < 1 then nat \<lceil>- log 2 x\<rceil> + 1 else nat \<lfloor>log 2 x\<rfloor>)")
  show "wf (measure (\<lambda>x. if x < 1 then nat \<lceil>- log 2 x\<rceil> + 1 else nat \<lfloor>log 2 x\<rfloor>))"
    by simp
next
  fix x :: real
  assume a: "\<not> x \<le> 0" "x < 1"
  show "(2 * x, x) \<in> measure (\<lambda>x. if x < 1 then nat \<lceil>- log 2 x\<rceil> + 1 else nat \<lfloor>log 2 x\<rfloor>)"
  proof (cases "2 * x < 1")
    case True
    have l: "log 2 (2 * x) = 1 + log 2 x" using a by (simp add: log_mult)
    have "log 2 (2 * x) < 0" using True a by simp
    then have "0 < - log 2 x - 1" using l by simp
    then have "nat \<lceil>- log 2 (2 * x)\<rceil> < nat \<lceil>- log 2 x\<rceil>" unfolding l by linarith
    then show ?thesis using True a by simp
  next
    case False
    then have "2 * x < 2" "1 \<le> 2 * x" using a by simp_all
    then have "0 \<le> log 2 (2 * x)" "log 2 (2 * x) < 1"
      by (simp_all add: log_less_iff)
    then have "\<lfloor>log 2 (2 * x)\<rfloor> = 0" by linarith
    then show ?thesis using False a by simp
  qed
next
  fix x :: real
  assume a: "\<not> x \<le> 0" "\<not> x < 1" "2 \<le> x"
  have l: "log 2 (x / 2) = log 2 x - 1" using a by (simp add: log_divide)
  have "1 \<le> log 2 x" using a by (simp add: le_log_iff)
  then have "nat \<lfloor>log 2 x - 1\<rfloor> < nat \<lfloor>log 2 x\<rfloor>" by linarith
  then show "(x / 2, x) \<in> measure (\<lambda>x. if x < 1 then nat \<lceil>- log 2 x\<rceil> + 1 else nat \<lfloor>log 2 x\<rfloor>)"
    using a l by simp
qed

declare ilog2.simps [simp del]

text \<open>The nearest integer, a tie going to the even one.\<close>

definition round_half_even :: "real \<Rightarrow> int" where
  "round_half_even x =
     (let f = \<lfloor>x\<rfloor>; r = x - of_int f
      in if r < 1 / 2 then f else if 1 / 2 < r then f + 1 else if even f then f else f + 1)"

text \<open>
  Rounding a real to binary64, to nearest with ties to even: 53 significant bits, and
  steps of \<open>2 ^ (-1074)\<close> in the subnormal range. A result of \<open>2 ^ 1024\<close> or more stands for
  an overflow to \<open>Infinity\<close>, which is not modelled apart from that.
\<close>

definition binary64 :: "real \<Rightarrow> real" where
  "binary64 x =
     (if x = 0 then 0
      else (let e = max (ilog2 \<bar>x\<bar> - 52) (- 1074)
            in of_int (round_half_even (x / 2 powi e)) * 2 powi e))"

text \<open>The reals that are finite doubles.\<close>

definition is_double :: "real \<Rightarrow> bool" where
  "is_double x \<longleftrightarrow> \<bar>x\<bar> < 2 powi 1024 \<and> binary64 x = x"

text \<open>\<open>x * y\<close> on doubles: the exact product, rounded.\<close>

definition double_mul :: "real \<Rightarrow> real \<Rightarrow> real" where
  "double_mul x y = binary64 (x * y)"

text \<open>
  \<open>Math.round\<close>: the integer nearest to the value of the double, a tie going up
  (ECMAScript, 21.3.2.28).
\<close>

definition Math_round :: "real \<Rightarrow> int" where
  "Math_round x = \<lfloor>x + 1 / 2\<rfloor>"

text \<open>The decimal digits of an integer, as a template literal \<open>${n}\<close> prints them.\<close>

function String_nat :: "nat \<Rightarrow> jsstring" where
  "String_nat n =
     (if n < 10 then [of_nat (48 + n)]
      else String_nat (n div 10) @ [of_nat (48 + n mod 10)])"
  by pat_completeness auto
termination
  by (relation "measure id") auto

declare String_nat.simps [simp del]

definition String_int :: "int \<Rightarrow> jsstring" where
  "String_int i = (if i < 0 then 0x2D # String_nat (nat (- i)) else String_nat (nat i))"

text \<open>
  Reading decimal notation, to say what a printed number denotes: the code units of the
  digits 0 to 9, and the number a string of digits stands for.
\<close>

definition is_digit :: "16 word \<Rightarrow> bool" where
  "is_digit c \<longleftrightarrow> 0x30 \<le> c \<and> c \<le> 0x39"

definition decimal_value :: "jsstring \<Rightarrow> nat" where
  "decimal_value s = foldl (\<lambda>n c. 10 * n + (unat c - 48)) 0 s"


section \<open>types.ts\<close>

text \<open>\<open>MetadataValue = any\<close>: the values JSON can carry.\<close>

datatype MetadataValue =
    JNull
  | JBool bool
  | JNum real
  | JStr jsstring
  | JArr "MetadataValue list"
  | JObj "(jsstring \<times> MetadataValue) list"

text \<open>
  \<open>SnippetMetadata = Record<string, MetadataValue> | null\<close>: an object is the list of its
  own properties in insertion order, \<open>null\<close> is \<open>None\<close>.
\<close>

type_synonym SnippetMetadata = "(jsstring \<times> MetadataValue) list option"

text \<open>
  \<open>SourceItem\<close>. An optional field that is absent and one that is \<open>null\<close> are both
  \<open>None\<close>. The fields \<open>id\<close>, \<open>text\<close> and \<open>title\<close> carry the prefix \<open>source_\<close>.
\<close>

record SourceItem =
  source_id :: jsstring
  source_text :: jsstring
  source_title :: "jsstring option"
  snippet_confidence :: real
  source_document_url :: "jsstring option"
  section_label :: "jsstring option"
  metadata :: SnippetMetadata

record AskResponse =
  answer :: jsstring
  sources :: "SourceItem list"
  answer_confidence :: real

text \<open>\<open>RefineResponse\<close> has the fields of \<open>AskResponse\<close>; TypeScript types are structural.\<close>

type_synonym RefineResponse = AskResponse

record RefineRequest =
  original_question :: jsstring
  original_answer :: jsstring
  refinement_prompt :: jsstring
  selected_source_ids :: "jsstring list"
  refine_sources :: "SourceItem list"
  refine_answer_closeness :: real


section \<open>components/ConfidenceBadge.tsx\<close>

datatype level = high | medium | low

definition ConfidenceBadge_pct :: "real \<Rightarrow> int" where
  "ConfidenceBadge_pct confidence = Math_round (double_mul confidence 100)"

definition ConfidenceBadge_level :: "real \<Rightarrow> level" where
  "ConfidenceBadge_level confidence =
     (let pct = ConfidenceBadge_pct confidence
      in if pct \<ge> 70 then high else if pct \<ge> 40 then medium else low)"

definition ConfidenceBadge_colors :: "level \<Rightarrow> jsstring" where
  "ConfidenceBadge_colors l =
     (if l = high
        then js ''bg-emerald-100 text-emerald-800 dark:bg-emerald-900/40 dark:text-emerald-300''
      else if l = medium
        then js ''bg-amber-100 text-amber-800 dark:bg-amber-900/40 dark:text-amber-300''
      else js ''bg-red-100 text-red-800 dark:bg-red-900/40 dark:text-red-300'')"

text \<open>
  What the badge renders: the class of the outer span, its title, and the texts of the
  two inner spans.
\<close>

record badge =
  badge_className :: jsstring
  badge_title :: jsstring
  badge_label :: jsstring
  badge_percentage :: jsstring

definition ConfidenceBadge :: "real \<Rightarrow> jsstring option \<Rightarrow> badge" where
  "ConfidenceBadge confidence label_prop =
     (let label = (case label_prop of None \<Rightarrow> js ''Confidence'' | Some l \<Rightarrow> l);
          pct = ConfidenceBadge_pct confidence;
          colors = ConfidenceBadge_colors (ConfidenceBadge_level confidence)
      in \<lparr> badge_className =
             js ''inline-flex items-center gap-1 rounded-full px-2.5 py-0.5 text-sm font-medium ''
               @ colors,
           badge_title = label @ js '': '' @ String_int pct @ js ''%'',
           badge_label = label @ js '':'',
           badge_percentage = String_int pct @ js ''%'' \<rparr>)"


section \<open>api.ts\<close>

text \<open>
  What a \<open>catch\<close> can receive: a \<open>TypeError\<close> (what \<open>fetch\<close> rejects with when the
  network fails), any other \<open>Error\<close> with its message, or a value that is no \<open>Error\<close>.
\<close>

datatype js_error = TypeError jsstring | Error jsstring | NotAnError

definition isNetworkError :: "js_error \<Rightarrow> bool" where
  "isNetworkError e =
     (case e of
        TypeError m \<Rightarrow> True
      | Error m \<Rightarrow> m = js ''Failed to fetch''
      | NotAnError \<Rightarrow> False)"

definition BACKEND_UNREACHABLE_MSG :: jsstring where
  "BACKEND_UNREACHABLE_MSG = js ''Cannot reach the backend. Is the server running on port 8000?''"

definition backendUnreachableMessage :: jsstring where
  "backendUnreachableMessage = BACKEND_UNREACHABLE_MSG"

text \<open>
  What \<open>await fetch(...)\<close> gives: a rejection, or a response with its status, its body
  as text, and the outcome of \<open>res.json()\<close> on it.
\<close>

datatype 'a fetch_outcome =
    FetchRejected js_error
  | FetchResponse nat jsstring "js_error + 'a"

definition res_ok :: "nat \<Rightarrow> bool" where
  "res_ok status \<longleftrightarrow> 200 \<le> status \<and> status \<le> 299"

text \<open>
  \<open>checkUnauthorized\<close>: a 401 clears the stored token and calls \<open>onUnauthorized\<close>, which
  the App sets to \<open>setTokenState(null)\<close>.
\<close>

definition checkUnauthorized :: "'a fetch_outcome \<Rightarrow> bool" where
  "checkUnauthorized out =
     (case out of FetchRejected e \<Rightarrow> False | FetchResponse status t j \<Rightarrow> status = 401)"

text \<open>
  The tail shared by \<open>ask\<close> and \<open>refineAnswer\<close>: a response that is not ok throws
  \<open>new Error(t || `<what> failed: ${res.status}`)\<close>, an ok one returns \<open>res.json()\<close>.
\<close>

definition api_result :: "jsstring \<Rightarrow> 'a fetch_outcome \<Rightarrow> js_error + 'a" where
  "api_result what out =
     (case out of
        FetchRejected e \<Rightarrow> Inl e
      | FetchResponse status t j \<Rightarrow>
          if \<not> res_ok status
          then Inl (Error (if t \<noteq> [] then t else what @ js '' failed: '' @ String_nat status))
          else j)"

text \<open>The \<open>options\<close> argument of \<open>ask\<close>; a field that is \<open>undefined\<close> is \<open>None\<close>.\<close>

record AskOptions =
  opt_groupNames :: "jsstring list option"
  opt_snippetIds :: "jsstring list option"
  opt_languages :: "jsstring list option"
  opt_answerCloseness :: "real option"
  opt_useHyde :: "bool option"
  opt_useKeywordRerank :: "bool option"

text \<open>
  The body \<open>ask\<close> serialises. \<open>JSON.stringify\<close> leaves out a field that was never
  assigned: such a field is \<open>None\<close>.
\<close>

record AskBody =
  body_question :: jsstring
  group_names :: "jsstring list option"
  snippet_ids :: "jsstring list option"
  languages :: "jsstring list option"
  answer_closeness :: "real option"
  use_hyde :: "bool option"
  use_keyword_rerank :: "bool option"

text \<open>\<open>options?.xs?.length\<close> as a condition: defined and not empty.\<close>

definition has_length :: "'a list option \<Rightarrow> bool" where
  "has_length xs = (case xs of None \<Rightarrow> False | Some l \<Rightarrow> length l \<noteq> 0)"

definition ask_body :: "jsstring \<Rightarrow> AskOptions option \<Rightarrow> AskBody" where
  "ask_body q options =
     (let body = \<lparr> body_question = q, group_names = None, snippet_ids = None,
                   languages = None, answer_closeness = None, use_hyde = None,
                   use_keyword_rerank = None \<rparr>
      in case options of
           None \<Rightarrow> body
         | Some opts \<Rightarrow>
             (let body = (if has_length (opt_groupNames opts)
                          then body\<lparr>group_names := opt_groupNames opts\<rparr> else body);
                  body = (if has_length (opt_snippetIds opts)
                          then body\<lparr>snippet_ids := opt_snippetIds opts\<rparr> else body);
                  body = (if has_length (opt_languages opts)
                          then body\<lparr>languages := opt_languages opts\<rparr> else body);
                  body = (if opt_answerCloseness opts \<noteq> None
                          then body\<lparr>answer_closeness := opt_answerCloseness opts\<rparr> else body);
                  body = (if opt_useHyde opts \<noteq> None
                          then body\<lparr>use_hyde := opt_useHyde opts\<rparr> else body);
                  body = (if opt_useKeywordRerank opts \<noteq> None
                          then body\<lparr>use_keyword_rerank := opt_useKeywordRerank opts\<rparr> else body)
              in body))"

text \<open>
  The requests the App's handlers send: \<open>POST /api/ask\<close> and \<open>POST /api/refine\<close>, each
  with its JSON body. The headers (content type and bearer token) are left out.
\<close>

datatype request = POST_api_ask AskBody | POST_api_refine RefineRequest

definition ask :: "jsstring \<Rightarrow> AskOptions option \<Rightarrow> AskResponse fetch_outcome
    \<Rightarrow> request \<times> (js_error + AskResponse)" where
  "ask q options out = (POST_api_ask (ask_body q options), api_result (js ''Ask'') out)"

text \<open>
  \<open>refineAnswer\<close> takes one object with six fields, here six arguments in the order of
  the source.
\<close>

definition refineAnswer_body ::
    "jsstring \<Rightarrow> jsstring \<Rightarrow> jsstring \<Rightarrow> jsstring list \<Rightarrow> SourceItem list \<Rightarrow> real
     \<Rightarrow> RefineRequest" where
  "refineAnswer_body originalQuestion' originalAnswer refinementPrompt selectedSourceIds
       sources' answerCloseness' =
     \<lparr> original_question = originalQuestion',
       original_answer = originalAnswer,
       refinement_prompt = refinementPrompt,
       selected_source_ids = selectedSourceIds,
       refine_sources = sources',
       refine_answer_closeness = answerCloseness' \<rparr>"

definition refineAnswer ::
    "jsstring \<Rightarrow> jsstring \<Rightarrow> jsstring \<Rightarrow> jsstring list \<Rightarrow> SourceItem list \<Rightarrow> real
     \<Rightarrow> RefineResponse fetch_outcome \<Rightarrow> request \<times> (js_error + RefineResponse)" where
  "refineAnswer originalQuestion' originalAnswer refinementPrompt selectedSourceIds
       sources' answerCloseness' out =
     (POST_api_refine (refineAnswer_body originalQuestion' originalAnswer refinementPrompt
                         selectedSourceIds sources' answerCloseness'),
      api_result (js ''Refine'') out)"


section \<open>App.tsx\<close>

datatype ScopeMode = mode_all | mode_groups | mode_snippets

text \<open>
  The state the ask tab holds in \<open>useState\<close> cells. The cells of the other tabs and of
  the theme (\<open>user\<close>, \<open>tab\<close>, \<open>groups\<close>, \<open>selectedGroups\<close>, \<open>snippetsForScope\<close>, \<open>theme\<close>,
  \<open>sourceToEdit\<close>, \<open>backendUnavailable\<close>) are written by neither \<open>handleAsk\<close> nor
  \<open>handleRefine\<close> and are left out.
\<close>

record App_state =
  token :: "jsstring option"
  question :: jsstring
  loading :: bool
  error :: "jsstring option"
  result :: "AskResponse option"
  scopeMode :: ScopeMode
  selectedGroupNames :: "jsstring list"
  selectedSnippetIds :: "jsstring list"
  answerCloseness :: real
  useHyde :: bool
  useKeywordRerank :: bool
  refining :: bool
  contextSourceIds :: "jsstring list"
  originalQuestion :: jsstring
  questionLanguage :: jsstring

text \<open>The initial values of the cells on a mount; \<open>getToken()\<close> reads the stored token.\<close>

definition App_init :: "jsstring option \<Rightarrow> App_state" where
  "App_init stored_token =
     \<lparr> token = stored_token,
       question = [],
       loading = False,
       error = None,
       result = None,
       scopeMode = mode_all,
       selectedGroupNames = [],
       selectedSnippetIds = [],
       answerCloseness = 0.5,
       useHyde = False,
       useKeywordRerank = True,
       refining = False,
       contextSourceIds = [],
       originalQuestion = [],
       questionLanguage = [] \<rparr>"

text \<open>The message a handler's \<open>catch\<close> stores.\<close>

definition catch_message :: "jsstring \<Rightarrow> js_error \<Rightarrow> jsstring" where
  "catch_message fallback e =
     (if isNetworkError e then backendUnreachableMessage
      else (case e of TypeError m \<Rightarrow> m | Error m \<Rightarrow> m | NotAnError \<Rightarrow> fallback))"

text \<open>The \<open>options\<close> object \<open>handleAsk\<close> builds.\<close>

definition handleAsk_options :: "App_state \<Rightarrow> AskOptions" where
  "handleAsk_options s =
     (let none = \<lparr> opt_groupNames = None, opt_snippetIds = None, opt_languages = None,
                   opt_answerCloseness = None, opt_useHyde = None,
                   opt_useKeywordRerank = None \<rparr>;
          options =
            (if scopeMode s = mode_groups \<and> length (selectedGroupNames s) \<noteq> 0
               then none\<lparr>opt_groupNames := Some (selectedGroupNames s)\<rparr>
             else if scopeMode s = mode_snippets \<and> length (selectedSnippetIds s) \<noteq> 0
               then none\<lparr>opt_snippetIds := Some (selectedSnippetIds s)\<rparr>
             else none);
          options = options\<lparr>opt_answerCloseness := Some (answerCloseness s)\<rparr>;
          options = options\<lparr>opt_useHyde := Some (useHyde s)\<rparr>;
          options = options\<lparr>opt_useKeywordRerank := Some (useKeywordRerank s)\<rparr>
      in if questionLanguage s \<noteq> []
         then options\<lparr>opt_languages := Some [questionLanguage s]\<rparr>
         else options)"

text \<open>
  \<open>handleAsk\<close>, run to completion against the outcome of its one \<open>fetch\<close>: the state it
  leaves and the requests it sent. A question that trims to the empty string returns
  before any state is set.
\<close>

definition handleAsk :: "App_state \<Rightarrow> AskResponse fetch_outcome \<Rightarrow> App_state \<times> request list" where
  "handleAsk s out =
     (let q = trim (question s)
      in if q = [] then (s, [])
         else
           (let s = s\<lparr>error := None\<rparr>;
                s = s\<lparr>result := None\<rparr>;
                s = s\<lparr>loading := True\<rparr>;
                s = s\<lparr>contextSourceIds := []\<rparr>;
                s = s\<lparr>originalQuestion := q\<rparr>;
                (req, r) = ask q (Some (handleAsk_options s)) out;
                s = (if checkUnauthorized out then s\<lparr>token := None\<rparr> else s);
                s = (case r of
                       Inr data \<Rightarrow> s\<lparr>result := Some data\<rparr>
                     | Inl e \<Rightarrow> s\<lparr>error := Some (catch_message (js ''Request failed'') e)\<rparr>)
            in (s\<lparr>loading := False\<rparr>, [req])))"

text \<open>
  \<open>handleRefine\<close>, run to completion against the outcome of its one \<open>fetch\<close>. The
  \<open>result\<close> it reads, before and after the \<open>await\<close>, is the one of the render that
  called it.
\<close>

definition handleRefine ::
    "App_state \<Rightarrow> jsstring \<Rightarrow> RefineResponse fetch_outcome \<Rightarrow> App_state \<times> request list" where
  "handleRefine s refinementPrompt out =
     (case result s of
        None \<Rightarrow> (s, [])
      | Some res \<Rightarrow>
          (let s = s\<lparr>refining := True\<rparr>;
               s = s\<lparr>error := None\<rparr>;
               (req, r) = refineAnswer (originalQuestion s) (answer res) refinementPrompt
                            (contextSourceIds s) (sources res) (answerCloseness s) out;
               s = (if checkUnauthorized out then s\<lparr>token := None\<rparr> else s);
               s = (case r of
                      Inr refined \<Rightarrow>
                        s\<lparr>result := Some \<lparr> answer = answer refined,
                                            sources = sources res,
                                            answer_confidence = answer_confidence refined \<rparr>\<rparr>
                    | Inl e \<Rightarrow> s\<lparr>error := Some (catch_message (js ''Refinement failed'') e)\<rparr>)
           in (s\<lparr>refining := False\<rparr>, [req])))"


section \<open>components/QuestionInput.tsx\<close>

text \<open>
  The \<open>disabled\<close> attribute of the submit button:
  \<open>disabled || loading || !value.trim()\<close>, the prop \<open>disabled\<close> being optional.
\<close>

definition QuestionInput_submit_disabled :: "jsstring \<Rightarrow> bool \<Rightarrow> bool option \<Rightarrow> bool" where
  "QuestionInput_submit_disabled val loading' disabled \<longleftrightarrow>
     disabled = Some True \<or> loading' \<or> trim val = []"

text \<open>The App renders \<open>QuestionInput\<close> with its question and its loading flag only.\<close>

definition App_submit_disabled :: "App_state \<Rightarrow> bool" where
  "App_submit_disabled s = QuestionInput_submit_disabled (question s) (loading s) None"


section \<open>components/EditSnippetModal.tsx\<close>

text \<open>The text inputs of the modal's metadata section, as \<open>buildMetadata\<close> reads them.\<close>

record EditSnippetForm =
  language :: jsstring
  heading :: jsstring
  category :: jsstring
  linkedSnippets :: jsstring
  exampleQuestions :: jsstring

definition Object_keys :: "(jsstring \<times> MetadataValue) list \<Rightarrow> jsstring list" where
  "Object_keys obj = map fst obj"

text \<open>The tokens of \<open>s.split(sep).map((t) => t.trim()).filter((t) => t.length > 0)\<close>.\<close>

definition tokens :: "16 word \<Rightarrow> jsstring \<Rightarrow> jsstring list" where
  "tokens sep s = filter (\<lambda>t. length t > 0) (map trim (split sep s))"

text \<open>
  The object \<open>meta\<close> at the end of \<open>buildMetadata\<close>. An assignment \<open>meta.k = v\<close> replaces
  the value of a property \<open>k\<close> where it stands or appends a new one; \<open>delete meta.k\<close>
  removes it. \<open>String.prototype.toLowerCase\<close> follows the Unicode case tables of the
  engine and is a parameter.
\<close>

definition buildMetadata_meta ::
    "(jsstring \<Rightarrow> jsstring) \<Rightarrow> SnippetMetadata \<Rightarrow> EditSnippetForm
     \<Rightarrow> (jsstring \<times> MetadataValue) list" where
  "buildMetadata_meta toLowerCase snippet_metadata form =
     (let meta = (case snippet_metadata of None \<Rightarrow> [] | Some m \<Rightarrow> m);
          meta = (if trim (language form) \<noteq> []
                  then AList.update (js ''language'')
                         (JStr (toLowerCase (trim (language form)))) meta
                  else AList.delete (js ''language'') meta);
          meta = (if trim (heading form) \<noteq> []
                  then AList.update (js ''heading'') (JStr (trim (heading form))) meta
                  else AList.delete (js ''heading'') meta);
          meta = (if trim (category form) \<noteq> []
                  then AList.update (js ''category'') (JStr (trim (category form))) meta
                  else AList.delete (js ''category'') meta);
          linked = tokens 0x2C (linkedSnippets form);
          meta = (if length linked > 0
                  then AList.update (js ''linked_snippets'') (JArr (map JStr linked)) meta
                  else AList.delete (js ''linked_snippets'') meta);
          questions = tokens 0x0A (exampleQuestions form);
          meta = (if length questions > 0
                  then AList.update (js ''example_questions'') (JArr (map JStr questions)) meta
                  else AList.delete (js ''example_questions'') meta)
      in meta)"

definition buildMetadata ::
    "(jsstring \<Rightarrow> jsstring) \<Rightarrow> SnippetMetadata \<Rightarrow> EditSnippetForm \<Rightarrow> SnippetMetadata" where
  "buildMetadata toLowerCase snippet_metadata form =
     (let meta = buildMetadata_meta toLowerCase snippet_metadata form
      in if length (Object_keys meta) > 0 then Some meta else None)"

text \<open>Reading a property of a metadata value that may be \<open>null\<close>.\<close>

definition meta_get :: "SnippetMetadata \<Rightarrow> jsstring \<Rightarrow> MetadataValue option" where
  "meta_get m k = (case m of None \<Rightarrow> None | Some obj \<Rightarrow> map_of obj k)"

text \<open>The five keys \<open>buildMetadata\<close> writes or deletes.\<close>

definition form_keys :: "jsstring list" where
  "form_keys = [js ''language'', js ''heading'', js ''category'', js ''linked_snippets'',
                js ''example_questions'']"

text \<open>\<open>toLowerCase\<close> on the letters A to Z, for running \<open>buildMetadata\<close> on ASCII input.\<close>

definition ascii_toLowerCase :: "jsstring \<Rightarrow> jsstring" where
  "ascii_toLowerCase s = map (\<lambda>c. if 0x41 \<le> c \<and> c \<le> 0x5A then c + 0x20 else c) s"


section \<open>The answer synthesizer of the backend\<close>

text \<open>
  Modelled from the spec: the answer synthesizer (section 4.6 of the specification) is
  backend code and not among the sources, which hold the frontend only. The generation
  capability is \<open>None\<close> when the provider is configured as "none", and otherwise a
  function \<open>generate(prompt) \<rightarrow> text | unavailable\<close> that gives \<open>None\<close> when no provider
  can be reached. The grounding prompt and the answer confidence of the generation path
  are parameters: the specification leaves them open.
\<close>

type_synonym generation = "(jsstring \<Rightarrow> jsstring option) option"

text \<open>
  Modelled from the spec: \<open>generate(prompt) \<rightarrow> text | unavailable\<close> of section 6, over a
  capability that may be absent.
\<close>

definition generate :: "generation \<Rightarrow> jsstring \<Rightarrow> jsstring option" where
  "generate gen prompt = (case gen of None \<Rightarrow> None | Some g \<Rightarrow> g prompt)"

text \<open>
  Modelled from the spec: with no ranked source (an empty candidate set, section 4.1) the
  result has no sources, the fixed answer "no matching snippets" and confidence 0; with
  no generated text the answer is the text of the top-ranked source and its confidence
  that source's confidence; otherwise the answer is the generated text.
\<close>

definition synthesize ::
    "generation \<Rightarrow> (jsstring \<Rightarrow> SourceItem list \<Rightarrow> real \<Rightarrow> jsstring) \<Rightarrow> (SourceItem list \<Rightarrow> real)
     \<Rightarrow> jsstring \<Rightarrow> SourceItem list \<Rightarrow> real \<Rightarrow> AskResponse" where
  "synthesize gen grounding_prompt generated_confidence q ranked closeness =
     (case ranked of
        [] \<Rightarrow> \<lparr> answer = js ''no matching snippets'', sources = [], answer_confidence = 0 \<rparr>
      | top_source # rest \<Rightarrow>
          (case generate gen (grounding_prompt q ranked closeness) of
             None \<Rightarrow> \<lparr> answer = source_text top_source, sources = ranked,
                       answer_confidence = snippet_confidence top_source \<rparr>
           | Some generated \<Rightarrow> \<lparr> answer = generated, sources = ranked,
                                 answer_confidence = generated_confidence ranked \<rparr>))"


section \<open>Example data\<close>

text \<open>
  The two snippets of the specification's example scenario, as ranked sources, the
  result of asking "What is the refund policy?" over them, and the App showing that
  result with the first source selected as context for a refinement.
\<close>

definition example_source_1 :: SourceItem where
  "example_source_1 =
     \<lparr> source_id = js ''1'', source_text = js ''Refund window is 30 days.'',
       source_title = None, snippet_confidence = 0.85, source_document_url = None,
       section_label = None, metadata = None \<rparr>"

definition example_source_2 :: SourceItem where
  "example_source_2 =
     \<lparr> source_id = js ''2'', source_text = js ''Shipping takes 3-5 days.'',
       source_title = None, snippet_confidence = 0.20, source_document_url = None,
       section_label = None, metadata = None \<rparr>"

definition example_result :: AskResponse where
  "example_result =
     \<lparr> answer = js ''Refund window is 30 days.'',
       sources = [example_source_1, example_source_2],
       answer_confidence = 0.85 \<rparr>"

definition example_state :: App_state where
  "example_state =
     (App_init None)
       \<lparr> question := js ''What is the refund policy?'',
         result := Some example_result,
         contextSourceIds := [js ''1''],
         originalQuestion := js ''What is the refund policy?'' \<rparr>"


section \<open>The confidence badge\<close>

lemma Math_round_ge_iff: "(k \<le> Math_round x) = (real_of_int k - 1 / 2 \<le> x)"
  unfolding Math_round_def by (auto simp add: le_floor_iff)

lemma ilog2_bounds: "0 < x \<Longrightarrow> 2 powi ilog2 x \<le> x \<and> x < 2 powi (ilog2 x + 1)"
proof (induction x rule: ilog2.induct)
  case (1 x)
  show ?case
  proof (cases "x < 1")
    case True
    with "1.prems" have e: "ilog2 x = ilog2 (2 * x) - 1"
      by (subst ilog2.simps) simp
    from "1.IH"(1) "1.prems" True
    have "2 powi ilog2 (2 * x) \<le> 2 * x \<and> 2 * x < 2 powi (ilog2 (2 * x) + 1)" by simp
    then show ?thesis unfolding e by (simp add: power_int_diff power_int_add)
  next
    case False
    show ?thesis
    proof (cases "2 \<le> x")
      case True
      with "1.prems" False have e: "ilog2 x = ilog2 (x / 2) + 1"
        by (subst ilog2.simps) simp
      from "1.IH"(2) "1.prems" False True
      have "2 powi ilog2 (x / 2) \<le> x / 2 \<and> x / 2 < 2 powi (ilog2 (x / 2) + 1)" by simp
      then show ?thesis unfolding e by (simp add: power_int_add)
    next
      case g: False
      with "1.prems" False have e: "ilog2 x = 0"
        by (subst ilog2.simps) simp
      show ?thesis unfolding e using False g by simp
    qed
  qed
qed

lemma two_powi_less_imp_less: "(2::real) powi a < 2 powi b \<Longrightarrow> a < b"
  using power_int_increasing [of b a "2::real"] by (cases "a < b") simp_all

lemma ilog2_eqI:
  assumes "2 powi k \<le> x" and "x < 2 powi (k + 1)"
  shows "ilog2 x = k"
proof -
  have p: "0 < x" using assms(1) zero_less_power_int [of "2::real" k] by linarith
  from ilog2_bounds [OF p] have b: "2 powi ilog2 x \<le> x" "x < 2 powi (ilog2 x + 1)" by simp_all
  have "(2::real) powi ilog2 x < 2 powi (k + 1)" using b(1) assms(2) by linarith
  then have 1: "ilog2 x < k + 1" by (rule two_powi_less_imp_less)
  have "(2::real) powi k < 2 powi (ilog2 x + 1)" using b(2) assms(1) by linarith
  then have 2: "k < ilog2 x + 1" by (rule two_powi_less_imp_less)
  from 1 2 show ?thesis by linarith
qed

lemma round_half_even_error: "\<bar>real_of_int (round_half_even z) - z\<bar> \<le> 1 / 2"
  unfolding round_half_even_def Let_def by (auto; linarith)

lemma round_half_even_ge_iff:
  assumes "even n"
  shows "n \<le> round_half_even z \<longleftrightarrow> real_of_int n - 1 / 2 \<le> z"
proof -
  define f where "f = \<lfloor>z\<rfloor>"
  have fz: "real_of_int f \<le> z" "z < real_of_int f + 1" unfolding f_def by linarith+
  consider "z - real_of_int f < 1 / 2" | "1 / 2 < z - real_of_int f" | "z - real_of_int f = 1 / 2"
    by linarith
  then show ?thesis
  proof cases
    case 1
    then have r: "round_half_even z = f" by (simp add: round_half_even_def f_def Let_def)
    show ?thesis unfolding r using 1 fz by linarith
  next
    case 2
    then have r: "round_half_even z = f + 1" by (simp add: round_half_even_def f_def Let_def)
    show ?thesis unfolding r using 2 fz by linarith
  next
    case 3
    show ?thesis
    proof (cases "even f")
      case True
      with 3 have r: "round_half_even z = f" by (simp add: round_half_even_def f_def Let_def)
      have "n \<noteq> f + 1" using True assms by auto
      then show ?thesis unfolding r using 3 by linarith
    next
      case False
      with 3 have r: "round_half_even z = f + 1" by (simp add: round_half_even_def f_def Let_def)
      show ?thesis unfolding r using 3 by linarith
    qed
  qed
qed

text \<open>Inside a binade of normal doubles the rounding is to a multiple of one step.\<close>

lemma binary64_in_binade:
  assumes "2 powi k \<le> x" and "x < 2 powi (k + 1)" and "- 1022 \<le> k"
  shows "binary64 x = real_of_int (round_half_even (x / 2 powi (k - 52))) * 2 powi (k - 52)"
proof -
  have p: "0 < x" using assms(1) zero_less_power_int [of "2::real" k] by linarith
  have "ilog2 \<bar>x\<bar> = k" using ilog2_eqI [OF assms(1,2)] p by simp
  then have m: "max (ilog2 \<bar>x\<bar> - 52) (- 1074) = k - 52" using assms(3) by simp
  show ?thesis unfolding binary64_def Let_def m using p by simp
qed

text \<open>Below \<open>2 ^ (k + 1)\<close> the rounding moves a value by at most half a step of that binade.\<close>

lemma binary64_error:
  assumes "0 \<le> x" and "x < 2 powi (k + 1)" and "- 1022 \<le> k"
  shows "\<bar>binary64 x - x\<bar> \<le> 2 powi (k - 53)"
proof (cases "x = 0")
  case True
  then show ?thesis by (simp add: binary64_def)
next
  case False
  with assms(1) have p: "0 < x" by simp
  define e where "e = max (ilog2 \<bar>x\<bar> - 52) (- 1074)"
  have "(2::real) powi ilog2 x < 2 powi (k + 1)"
    using ilog2_bounds [OF p] assms(2) by linarith
  then have "ilog2 x < k + 1" by (rule two_powi_less_imp_less)
  then have ek: "e \<le> k - 52" using p assms(3) by (simp add: e_def)
  have q: "(0::real) < 2 powi e" by simp
  have b: "binary64 x = real_of_int (round_half_even (x / 2 powi e)) * 2 powi e"
    using False by (simp add: binary64_def Let_def e_def)
  have "binary64 x - x = (real_of_int (round_half_even (x / 2 powi e)) - x / 2 powi e) * 2 powi e"
    unfolding b using q by (simp add: field_simps)
  then have "\<bar>binary64 x - x\<bar> =
      \<bar>real_of_int (round_half_even (x / 2 powi e)) - x / 2 powi e\<bar> * 2 powi e"
    using q by (simp add: abs_mult)
  also have "\<dots> \<le> 1 / 2 * 2 powi e"
    using round_half_even_error [of "x / 2 powi e"] q by (simp add: mult_right_mono)
  also have "\<dots> = 2 powi (e - 1)" by (simp add: power_int_diff)
  also have "\<dots> \<le> 2 powi (k - 53)"
    using ek by (simp add: power_int_increasing)
  finally show ?thesis .
qed

lemma binary64_ge_iff:
  assumes "2 powi k \<le> x" and "x < 2 powi (k + 1)" and "- 1022 \<le> k" and "even n"
  shows "(real_of_int n * 2 powi (k - 52) \<le> binary64 x) =
         (real_of_int n - 1 / 2 \<le> x / 2 powi (k - 52))"
proof -
  have q: "(0::real) < 2 powi (k - 52)" by simp
  have "(real_of_int n * 2 powi (k - 52) \<le> binary64 x) =
        (n \<le> round_half_even (x / 2 powi (k - 52)))"
    unfolding binary64_in_binade [OF assms(1,2,3)] using q by simp
  then show ?thesis unfolding round_half_even_ge_iff [OF assms(4)] .
qed

lemma binary64_percent_error:
  assumes "0 \<le> y" and "y \<le> 100"
  shows "\<bar>binary64 y - y\<bar> \<le> 1 / 2 ^ 47"
  using binary64_error [of y 6] assms by simp

text \<open>
  The product rounds to 69.5 or more exactly from \<open>69.5 - 2 ^ (-47)\<close> on, the midpoint
  between 69.5 and the double below it, a tie that goes to the even 69.5.
\<close>

lemma pct_ge_70_iff:
  assumes "0 \<le> y" and "y \<le> 100"
  shows "(70 \<le> Math_round (binary64 y)) = (139 / 2 - 1 / 2 ^ 47 \<le> y)"
proof (cases "y < 64")
  case True
  from binary64_error [of y 5] assms True have "\<bar>binary64 y - y\<bar> \<le> 1 / 2 ^ 48" by simp
  then have "binary64 y \<le> y + 1 / 2 ^ 48" by linarith
  then have "\<not> real_of_int 70 - 1 / 2 \<le> binary64 y" using True by simp
  moreover have "\<not> 139 / 2 - 1 / 2 ^ 47 \<le> y" using True by simp
  ultimately show ?thesis unfolding Math_round_ge_iff by blast
next
  case False
  have e: "even (4890627720347648::int)" by simp
  from binary64_ge_iff [of 6 y 4890627720347648, OF _ _ _ e] False assms
  have "(139 / 2 \<le> binary64 y) = (4890627720347648 - 1 / 2 \<le> y * 2 ^ 46)" by simp
  then show ?thesis unfolding Math_round_ge_iff by (simp add: mult.commute)
qed

lemma pct_ge_40_iff:
  assumes "0 \<le> y" and "y \<le> 100"
  shows "(40 \<le> Math_round (binary64 y)) = (79 / 2 - 1 / 2 ^ 48 \<le> y)"
proof -
  consider "y < 32" | "32 \<le> y" "y < 64" | "64 \<le> y" by linarith
  then show ?thesis
  proof cases
    case 1
    from binary64_error [of y 4] assms 1 have "\<bar>binary64 y - y\<bar> \<le> 1 / 2 ^ 49" by simp
    then have "binary64 y \<le> y + 1 / 2 ^ 49" by linarith
    then have "\<not> real_of_int 40 - 1 / 2 \<le> binary64 y" using 1 by simp
    moreover have "\<not> 79 / 2 - 1 / 2 ^ 48 \<le> y" using 1 by simp
    ultimately show ?thesis unfolding Math_round_ge_iff by blast
  next
    case 2
    have e: "even (5559130790035456::int)" by simp
    from binary64_ge_iff [of 5 y 5559130790035456, OF _ _ _ e] 2
    have "(79 / 2 \<le> binary64 y) = (5559130790035456 - 1 / 2 \<le> y * 2 ^ 47)" by simp
    then show ?thesis unfolding Math_round_ge_iff by (simp add: mult.commute)
  next
    case 3
    from binary64_percent_error [OF assms] have "y - 1 / 2 ^ 47 \<le> binary64 y" by linarith
    then have "real_of_int 40 - 1 / 2 \<le> binary64 y" using 3 by simp
    moreover have "79 / 2 - 1 / 2 ^ 48 \<le> y" using 3 by simp
    ultimately show ?thesis unfolding Math_round_ge_iff by blast
  qed
qed

lemma is_doubleI: "\<bar>x\<bar> < 2 powi 1024 \<Longrightarrow> binary64 x = x \<Longrightarrow> is_double x"
  by (simp add: is_double_def)

lemma binary64_0695: "binary64 0.695 = 6260003482044989 / 9007199254740992"
  by (simp add: binary64_def ilog2.simps round_half_even_def Let_def)

lemma binary64_0697: "binary64 0.697 = 6278017880554471 / 9007199254740992"
  by (simp add: binary64_def ilog2.simps round_half_even_def Let_def)

lemma binary64_0855: "binary64 0.855 = 1925288840700887 / 2251799813685248"
  by (simp add: binary64_def ilog2.simps round_half_even_def Let_def)

text \<open>
  C2, as amended. For a confidence in \<open>[0, 1]\<close> the badge classifies the rounded
  percentage \<open>Math.round(confidence * 100)\<close>, the product being the double product: the
  level is high exactly when the percentage is 70 or more, which is when the exact
  product is at least \<open>69.5 - 2 ^ (-47)\<close>; medium exactly when the percentage is from 40
  to 69, which is when the exact product is at least \<open>39.5 - 2 ^ (-48)\<close> and below
  \<open>69.5 - 2 ^ (-47)\<close>; and low exactly when the percentage is below 40, which is when the
  exact product is below \<open>39.5 - 2 ^ (-48)\<close>.
\<close>

theorem ConfidenceBadge_level_thresholds:
  assumes "0 \<le> c" and "c \<le> 1"
  shows "(ConfidenceBadge_level c = high \<longleftrightarrow> 70 \<le> ConfidenceBadge_pct c) \<and>
         (ConfidenceBadge_level c = medium \<longleftrightarrow>
            40 \<le> ConfidenceBadge_pct c \<and> ConfidenceBadge_pct c < 70) \<and>
         (ConfidenceBadge_level c = low \<longleftrightarrow> ConfidenceBadge_pct c < 40) \<and>
         (ConfidenceBadge_level c = high \<longleftrightarrow> 139 / 2 - 1 / 2 ^ 47 \<le> c * 100) \<and>
         (ConfidenceBadge_level c = medium \<longleftrightarrow>
            79 / 2 - 1 / 2 ^ 48 \<le> c * 100 \<and> c * 100 < 139 / 2 - 1 / 2 ^ 47) \<and>
         (ConfidenceBadge_level c = low \<longleftrightarrow> c * 100 < 79 / 2 - 1 / 2 ^ 48)"
proof -
  have y: "0 \<le> c * 100" "c * 100 \<le> 100" using assms by simp_all
  have h: "(70 \<le> ConfidenceBadge_pct c) = (139 / 2 - 1 / 2 ^ 47 \<le> c * 100)"
    unfolding ConfidenceBadge_pct_def double_mul_def by (rule pct_ge_70_iff [OF y])
  have m: "(40 \<le> ConfidenceBadge_pct c) = (79 / 2 - 1 / 2 ^ 48 \<le> c * 100)"
    unfolding ConfidenceBadge_pct_def double_mul_def by (rule pct_ge_40_iff [OF y])
  have l: "(ConfidenceBadge_pct c < 70) = (c * 100 < 139 / 2 - 1 / 2 ^ 47)"
    "(ConfidenceBadge_pct c < 40) = (c * 100 < 79 / 2 - 1 / 2 ^ 48)"
    using h m by linarith+
  show ?thesis
    unfolding ConfidenceBadge_level_def Let_def l h m by auto
qed

text \<open>
  The double nearest to 0.695 lies below 0.695 and is shown as high; the double just
  below it is shown as medium.
\<close>

theorem ConfidenceBadge_level_thresholds_witness:
  "is_double (binary64 0.695) \<and> 0 \<le> binary64 0.695 \<and> binary64 0.695 \<le> 1 \<and>
   binary64 0.695 < 0.695 \<and>
   ConfidenceBadge_level (binary64 0.695) = high \<and>
   is_double (binary64 0.695 - 1 / 2 ^ 53) \<and>
   ConfidenceBadge_level (binary64 0.695 - 1 / 2 ^ 53) = medium"
proof -
  have d: "is_double (6260003482044989 / 9007199254740992)"
    "is_double (6260003482044989 / 9007199254740992 - 1 / 2 ^ 53)"
    by (rule is_doubleI, simp, simp add: binary64_def ilog2.simps round_half_even_def Let_def)+
  have a: "(0::real) \<le> 6260003482044989 / 9007199254740992"
    and b: "(6260003482044989 / 9007199254740992 :: real) \<le> 1"
    and a': "(0::real) \<le> 6260003482044989 / 9007199254740992 - 1 / 2 ^ 53"
    and b': "(6260003482044989 / 9007199254740992 - 1 / 2 ^ 53 :: real) \<le> 1"
    by simp_all
  from ConfidenceBadge_level_thresholds [OF a b]
  have h: "ConfidenceBadge_level (6260003482044989 / 9007199254740992) = high" by simp
  from ConfidenceBadge_level_thresholds [OF a' b']
  have m: "ConfidenceBadge_level (6260003482044989 / 9007199254740992 - 1 / 2 ^ 53) = medium"
    by simp
  show ?thesis unfolding binary64_0695 using d h m by simp
qed

text \<open>
  The claim as stated fails: the double nearest to 0.697 lies in \<open>[0, 1]\<close> and below
  0.70, its percentage rounds to 70, and the badge shows it as high.
\<close>

theorem ConfidenceBadge_level_counterexample:
  "is_double (binary64 0.697) \<and> 0 \<le> binary64 0.697 \<and> binary64 0.697 \<le> 1 \<and>
   \<not> (binary64 0.697 \<ge> 0.70) \<and>
   ConfidenceBadge_pct (binary64 0.697) = 70 \<and> ConfidenceBadge_level (binary64 0.697) = high"
proof -
  have d: "is_double (6278017880554471 / 9007199254740992)"
    by (rule is_doubleI, simp, simp add: binary64_def ilog2.simps round_half_even_def Let_def)
  have m: "double_mul (6278017880554471 / 9007199254740992) 100 =
             1226175367295795 / 17592186044416"
    unfolding double_mul_def by (simp add: binary64_def ilog2.simps round_half_even_def Let_def)
  have p: "ConfidenceBadge_pct (6278017880554471 / 9007199254740992) = 70"
    by (simp add: ConfidenceBadge_pct_def m Math_round_def)
  have l: "ConfidenceBadge_level (6278017880554471 / 9007199254740992) = high"
    by (simp add: ConfidenceBadge_level_def p)
  show ?thesis unfolding binary64_0697 using d p l by simp
qed

lemma unat_digit: "d < 10 \<Longrightarrow> unat (of_nat (48 + d) :: 16 word) = 48 + d"
  by (simp add: unat_of_nat del: of_nat_add)

lemma is_digit_of_nat: "d < 10 \<Longrightarrow> is_digit (of_nat (48 + d) :: 16 word)"
  unfolding is_digit_def by (simp add: word_le_nat_alt unat_digit del: of_nat_add)

lemma decimal_value_snoc:
  "decimal_value (s @ [c]) = 10 * decimal_value s + (unat c - 48)"
  by (simp add: decimal_value_def)

lemma String_nat_digits: "list_all is_digit (String_nat n)"
proof (induction n rule: String_nat.induct)
  case (1 n)
  show ?case
  proof (cases "n < 10")
    case True
    then show ?thesis by (subst String_nat.simps) (simp add: is_digit_of_nat del: of_nat_add)
  next
    case False
    with 1 have "list_all is_digit (String_nat (n div 10))" by simp
    then show ?thesis using False
      by (subst String_nat.simps) (simp add: is_digit_of_nat del: of_nat_add)
  qed
qed

lemma decimal_value_String_nat: "decimal_value (String_nat n) = n"
proof (induction n rule: String_nat.induct)
  case (1 n)
  show ?case
  proof (cases "n < 10")
    case True
    then show ?thesis
      by (subst String_nat.simps) (simp add: decimal_value_def unat_digit del: of_nat_add)
  next
    case False
    with 1 have "decimal_value (String_nat (n div 10)) = n div 10" by simp
    then show ?thesis using False
      by (subst String_nat.simps) (simp add: decimal_value_snoc unat_digit del: of_nat_add)
  qed
qed

lemma String_nat_nonempty: "String_nat n \<noteq> []"
  by (subst String_nat.simps) simp

lemma String_nat_no_leading_zero: "0 < n \<Longrightarrow> hd (String_nat n) \<noteq> 0x30"
proof (induction n rule: String_nat.induct)
  case (1 n)
  show ?case
  proof (cases "n < 10")
    case True
    have "unat (of_nat (48 + n) :: 16 word) \<noteq> unat (0x30 :: 16 word)"
      using True "1.prems" by (simp add: unat_digit del: of_nat_add)
    then have "(of_nat (48 + n) :: 16 word) \<noteq> 0x30" by metis
    then show ?thesis using True by (subst String_nat.simps) (simp del: of_nat_add)
  next
    case False
    with 1 have "hd (String_nat (n div 10)) \<noteq> 0x30" by simp
    then show ?thesis using False String_nat_nonempty [of "n div 10"]
      by (subst String_nat.simps) simp
  qed
qed

text \<open>
  C3. For a confidence in \<open>[0, 1]\<close> the percentage the badge computes is
  \<open>Math.round(confidence * 100)\<close>, the product being the double product, which lies
  within \<open>2 ^ (-47)\<close> of the exact one. The percentage is the integer nearest to that
  product, a tie going up, and lies between 0 and 100. The inner span shows the decimal
  notation of that integer (digits only, with no leading zero, that read back as the
  integer) followed by a percent sign, and the title shows the label, a colon, a space
  and the same text.
\<close>

theorem ConfidenceBadge_percentage:
  assumes "0 \<le> c" and "c \<le> 1"
  shows "ConfidenceBadge_pct c = Math_round (double_mul c 100) \<and>
         \<bar>double_mul c 100 - c * 100\<bar> \<le> 1 / 2 ^ 47 \<and>
         real_of_int (ConfidenceBadge_pct c) \<le> double_mul c 100 + 1 / 2 \<and>
         double_mul c 100 - 1 / 2 < real_of_int (ConfidenceBadge_pct c) \<and>
         0 \<le> ConfidenceBadge_pct c \<and> ConfidenceBadge_pct c \<le> 100 \<and>
         badge_percentage (ConfidenceBadge c l) = String_int (ConfidenceBadge_pct c) @ js ''%'' \<and>
         badge_title (ConfidenceBadge c (Some t)) =
           t @ js '': '' @ String_int (ConfidenceBadge_pct c) @ js ''%'' \<and>
         list_all is_digit (String_int (ConfidenceBadge_pct c)) \<and>
         int (decimal_value (String_int (ConfidenceBadge_pct c))) = ConfidenceBadge_pct c \<and>
         (String_int (ConfidenceBadge_pct c) = js ''0'' \<or>
          hd (String_int (ConfidenceBadge_pct c)) \<noteq> 0x30)"
proof -
  have y: "0 \<le> c * 100" "c * 100 \<le> 100" using assms by simp_all
  have 1: "ConfidenceBadge_pct c = Math_round (double_mul c 100)"
    by (simp add: ConfidenceBadge_pct_def)
  have 2: "\<bar>double_mul c 100 - c * 100\<bar> \<le> 1 / 2 ^ 47"
    unfolding double_mul_def by (rule binary64_percent_error [OF y])
  have 3: "real_of_int (ConfidenceBadge_pct c) \<le> double_mul c 100 + 1 / 2"
    unfolding ConfidenceBadge_pct_def Math_round_def by linarith
  have 4: "double_mul c 100 - 1 / 2 < real_of_int (ConfidenceBadge_pct c)"
    unfolding ConfidenceBadge_pct_def Math_round_def by linarith
  have lo: "c * 100 - 1 / 2 ^ 47 \<le> double_mul c 100"
    and hi: "double_mul c 100 \<le> c * 100 + 1 / 2 ^ 47"
    using 2 by linarith+
  have "real_of_int 0 - 1 / 2 \<le> double_mul c 100"
    using lo y by (simp; linarith)
  then have 5: "0 \<le> ConfidenceBadge_pct c"
    unfolding 1 Math_round_ge_iff .
  have "\<not> real_of_int 101 - 1 / 2 \<le> double_mul c 100"
    using hi y by (simp; linarith)
  then have "\<not> 101 \<le> ConfidenceBadge_pct c"
    unfolding 1 Math_round_ge_iff .
  then have 6: "ConfidenceBadge_pct c \<le> 100" by simp
  have 7: "badge_percentage (ConfidenceBadge c l) = String_int (ConfidenceBadge_pct c) @ js ''%''"
    by (simp add: ConfidenceBadge_def Let_def)
  have 8: "badge_title (ConfidenceBadge c (Some t)) =
           t @ js '': '' @ String_int (ConfidenceBadge_pct c) @ js ''%''"
    by (simp add: ConfidenceBadge_def Let_def)
  have s: "String_int (ConfidenceBadge_pct c) = String_nat (nat (ConfidenceBadge_pct c))"
    using 5 by (simp add: String_int_def)
  have 9: "list_all is_digit (String_int (ConfidenceBadge_pct c))"
    unfolding s by (rule String_nat_digits)
  have 10: "int (decimal_value (String_int (ConfidenceBadge_pct c))) = ConfidenceBadge_pct c"
    unfolding s decimal_value_String_nat using 5 by simp
  have 11: "String_int (ConfidenceBadge_pct c) = js ''0'' \<or>
            hd (String_int (ConfidenceBadge_pct c)) \<noteq> 0x30"
  proof (cases "ConfidenceBadge_pct c = 0")
    case True
    then show ?thesis by (simp add: String_int_def String_nat.simps js_def)
  next
    case False
    with 5 have "0 < nat (ConfidenceBadge_pct c)" by simp
    then show ?thesis unfolding s by (simp add: String_nat_no_leading_zero)
  qed
  from 1 2 3 4 5 6 7 8 9 10 11 show ?thesis by blast
qed

text \<open>
  The double nearest to 0.855 lies below 0.855; its product with 100 rounds to the
  double 85.5, and the badge shows 86%.
\<close>

theorem ConfidenceBadge_percentage_witness:
  "is_double (binary64 0.855) \<and> 0 \<le> binary64 0.855 \<and> binary64 0.855 \<le> 1 \<and>
   binary64 0.855 < 0.855 \<and> double_mul (binary64 0.855) 100 = 85.5 \<and>
   ConfidenceBadge_pct (binary64 0.855) = 86 \<and>
   badge_percentage (ConfidenceBadge (binary64 0.855) None) = js ''86%'' \<and>
   badge_title (ConfidenceBadge (binary64 0.855) (Some (js ''Match''))) = js ''Match: 86%''"
proof -
  have d: "is_double (1925288840700887 / 2251799813685248)"
    by (rule is_doubleI, simp, simp add: binary64_def ilog2.simps round_half_even_def Let_def)
  have a: "(0::real) \<le> 1925288840700887 / 2251799813685248"
    and b: "(1925288840700887 / 2251799813685248 :: real) \<le> 1" by simp_all
  have m: "double_mul (1925288840700887 / 2251799813685248) 100 = 85.5"
    unfolding double_mul_def by (simp add: binary64_def ilog2.simps round_half_even_def Let_def)
  have r: "ConfidenceBadge_pct (1925288840700887 / 2251799813685248) = 86"
    by (simp add: ConfidenceBadge_pct_def m Math_round_def)
  have s: "String_int 86 = js ''86''"
    by (simp add: String_int_def String_nat.simps js_def)
  from ConfidenceBadge_percentage [OF a b, of None "js ''Match''"] show ?thesis
    unfolding binary64_0855 r s using d m by (simp add: js_def)
qed


section \<open>Asking\<close>

lemma trim_example_question: "trim (js ''What is the refund policy?'') \<noteq> []"
  by (simp add: trim_def js_def isWhiteSpace_def)

lemma handleAsk_requests:
  "trim (question s) \<noteq> [] \<Longrightarrow>
   snd (handleAsk s out) =
     [POST_api_ask (ask_body (trim (question s)) (Some (handleAsk_options s)))]"
  by (simp add: handleAsk_def Let_def ask_def handleAsk_options_def)

text \<open>
  C4. Whenever \<open>handleAsk\<close> sends a request, it is one \<open>POST /api/ask\<close> whose body has at
  most one of \<open>group_names\<close> and \<open>snippet_ids\<close>; in mode "groups" with groups selected
  \<open>group_names\<close> is the selected group names (and \<open>snippet_ids\<close> is absent), and in mode
  "snippets" with snippets selected \<open>snippet_ids\<close> is the selected snippet ids (and
  \<open>group_names\<close> is absent).
\<close>

theorem handleAsk_one_scope:
  assumes "trim (question s) \<noteq> []"
  shows "\<exists>body. snd (handleAsk s out) = [POST_api_ask body] \<and>
           (group_names body = None \<or> snippet_ids body = None) \<and>
           (scopeMode s = mode_groups \<and> selectedGroupNames s \<noteq> []
              \<longrightarrow> group_names body = Some (selectedGroupNames s) \<and> snippet_ids body = None) \<and>
           (scopeMode s = mode_snippets \<and> selectedSnippetIds s \<noteq> []
              \<longrightarrow> snippet_ids body = Some (selectedSnippetIds s) \<and> group_names body = None)"
  unfolding handleAsk_requests [OF assms]
  by (simp add: ask_body_def handleAsk_options_def Let_def has_length_def)

text \<open>
  In mode "groups", with a group and also a snippet selected, the body carries the group
  and no snippet id.
\<close>

theorem handleAsk_one_scope_witness:
  "trim (question (example_state\<lparr>scopeMode := mode_groups, selectedGroupNames := [js ''faq''],
                                  selectedSnippetIds := [js ''1'']\<rparr>)) \<noteq> [] \<and>
   (\<exists>body. snd (handleAsk (example_state\<lparr>scopeMode := mode_groups,
                                            selectedGroupNames := [js ''faq''],
                                            selectedSnippetIds := [js ''1'']\<rparr>)
                    (FetchRejected (TypeError (js ''Failed to fetch'')))) = [POST_api_ask body] \<and>
           group_names body = Some [js ''faq''] \<and> snippet_ids body = None)"
proof -
  have h: "trim (question (example_state\<lparr>scopeMode := mode_groups,
              selectedGroupNames := [js ''faq''], selectedSnippetIds := [js ''1'']\<rparr>)) \<noteq> []"
    by (simp add: example_state_def trim_example_question)
  from handleAsk_one_scope [OF h, of "FetchRejected (TypeError (js ''Failed to fetch''))"]
  show ?thesis using h by auto
qed

text \<open>
  C8. Whenever \<open>handleAsk\<close> sends a request in mode "groups" with no group selected, or
  in mode "snippets" with no snippet selected, the body has neither \<open>group_names\<close> nor
  \<open>snippet_ids\<close>: the request asks over all snippets.
\<close>

theorem handleAsk_empty_selection_all_scope:
  assumes "trim (question s) \<noteq> []"
    and "(scopeMode s = mode_groups \<and> selectedGroupNames s = []) \<or>
         (scopeMode s = mode_snippets \<and> selectedSnippetIds s = [])"
  shows "\<exists>body. snd (handleAsk s out) = [POST_api_ask body] \<and>
           group_names body = None \<and> snippet_ids body = None"
  unfolding handleAsk_requests [OF assms(1)] using assms(2)
  by (auto simp add: ask_body_def handleAsk_options_def Let_def has_length_def)

text \<open>
  In mode "groups" with no group selected, a snippet selection left over from the other
  mode is not sent either.
\<close>

theorem handleAsk_empty_selection_all_scope_witness:
  "trim (question (example_state\<lparr>scopeMode := mode_groups,
                                  selectedSnippetIds := [js ''1'']\<rparr>)) \<noteq> [] \<and>
   scopeMode (example_state\<lparr>scopeMode := mode_groups,
                            selectedSnippetIds := [js ''1'']\<rparr>) = mode_groups \<and>
   selectedGroupNames (example_state\<lparr>scopeMode := mode_groups,
                                     selectedSnippetIds := [js ''1'']\<rparr>) = [] \<and>
   (\<exists>body. snd (handleAsk (example_state\<lparr>scopeMode := mode_groups,
                                            selectedSnippetIds := [js ''1'']\<rparr>)
                    (FetchResponse 200 [] (Inr example_result))) = [POST_api_ask body] \<and>
           group_names body = None \<and> snippet_ids body = None)"
proof -
  have h: "trim (question (example_state\<lparr>scopeMode := mode_groups,
                                          selectedSnippetIds := [js ''1'']\<rparr>)) \<noteq> []"
    by (simp add: example_state_def trim_example_question)
  have g: "scopeMode (example_state\<lparr>scopeMode := mode_groups,
                            selectedSnippetIds := [js ''1'']\<rparr>) = mode_groups \<and>
           selectedGroupNames (example_state\<lparr>scopeMode := mode_groups,
                                     selectedSnippetIds := [js ''1'']\<rparr>) = []"
    by (simp add: example_state_def App_init_def)
  from handleAsk_empty_selection_all_scope [OF h disjI1 [OF g],
      of "FetchResponse 200 [] (Inr example_result)"]
  show ?thesis using h g by blast
qed

text \<open>
  C6. On a mount \<open>answerCloseness\<close> starts at 0.5, \<open>useHyde\<close> at false and
  \<open>useKeywordRerank\<close> at true; and whenever \<open>handleAsk\<close> sends a request, its body carries
  \<open>answer_closeness\<close>, \<open>use_hyde\<close> and \<open>use_keyword_rerank\<close> with the current values of the
  three.
\<close>

theorem App_init_defaults_sent:
  "answerCloseness (App_init tok) = 0.5 \<and> useHyde (App_init tok) = False \<and>
   useKeywordRerank (App_init tok) = True \<and>
   (\<forall>s out. trim (question s) \<noteq> [] \<longrightarrow>
      (\<exists>body. snd (handleAsk s out) = [POST_api_ask body] \<and>
         answer_closeness body = Some (answerCloseness s) \<and>
         use_hyde body = Some (useHyde s) \<and>
         use_keyword_rerank body = Some (useKeywordRerank s)))"
proof -
  have "\<exists>body. snd (handleAsk s out) = [POST_api_ask body] \<and>
         answer_closeness body = Some (answerCloseness s) \<and>
         use_hyde body = Some (useHyde s) \<and>
         use_keyword_rerank body = Some (useKeywordRerank s)"
    if "trim (question s) \<noteq> []" for s out
    unfolding handleAsk_requests [OF that]
    by (simp add: ask_body_def handleAsk_options_def Let_def has_length_def)
  then show ?thesis by (simp add: App_init_def)
qed

text \<open>A question typed right after a mount is sent with 0.5, false and true.\<close>

theorem App_init_defaults_sent_witness:
  "trim (question ((App_init None)\<lparr>question := js ''What is the refund policy?''\<rparr>)) \<noteq> [] \<and>
   (\<exists>body. snd (handleAsk ((App_init None)\<lparr>question := js ''What is the refund policy?''\<rparr>)
                    (FetchResponse 200 [] (Inr example_result))) = [POST_api_ask body] \<and>
           answer_closeness body = Some 0.5 \<and> use_hyde body = Some False \<and>
           use_keyword_rerank body = Some True)"
proof -
  have h: "trim (question ((App_init None)\<lparr>question := js ''What is the refund policy?''\<rparr>)) \<noteq> []"
    by (simp add: trim_example_question)
  from App_init_defaults_sent [of None]
  have "\<exists>body. snd (handleAsk ((App_init None)\<lparr>question := js ''What is the refund policy?''\<rparr>)
                    (FetchResponse 200 [] (Inr example_result))) = [POST_api_ask body] \<and>
           answer_closeness body =
             Some (answerCloseness ((App_init None)\<lparr>question := js ''What is the refund policy?''\<rparr>)) \<and>
           use_hyde body =
             Some (useHyde ((App_init None)\<lparr>question := js ''What is the refund policy?''\<rparr>)) \<and>
           use_keyword_rerank body =
             Some (useKeywordRerank ((App_init None)\<lparr>question := js ''What is the refund policy?''\<rparr>))"
    using h by blast
  then show ?thesis using h by (simp add: App_init_def)
qed

text \<open>
  C9. When the question trims to the empty string, \<open>handleAsk\<close> sends no request and
  leaves the whole state as it was, the result and the error included; and the submit
  button of \<open>QuestionInput\<close> is disabled, whatever its other props are.
\<close>

theorem handleAsk_blank_question:
  assumes "trim (question s) = []"
  shows "handleAsk s out = (s, []) \<and> App_submit_disabled s \<and>
         QuestionInput_submit_disabled (question s) l d"
  using assms
  by (simp add: handleAsk_def App_submit_disabled_def QuestionInput_submit_disabled_def)

text \<open>A question of a space, a tab and a no-break space, over a shown result.\<close>

theorem handleAsk_blank_question_witness:
  "trim (question (example_state\<lparr>question := [0x20, 0x09, 0xA0]\<rparr>)) = [] \<and>
   handleAsk (example_state\<lparr>question := [0x20, 0x09, 0xA0]\<rparr>)
       (FetchResponse 200 [] (Inr example_result)) =
     (example_state\<lparr>question := [0x20, 0x09, 0xA0]\<rparr>, []) \<and>
   result (fst (handleAsk (example_state\<lparr>question := [0x20, 0x09, 0xA0]\<rparr>)
                  (FetchResponse 200 [] (Inr example_result)))) = Some example_result \<and>
   QuestionInput_submit_disabled [0x20, 0x09, 0xA0] False (Some False)"
proof -
  have h: "trim (question (example_state\<lparr>question := [0x20, 0x09, 0xA0]\<rparr>)) = []"
    by (simp add: trim_def isWhiteSpace_def)
  from handleAsk_blank_question [OF h, of "FetchResponse 200 [] (Inr example_result)"
      False "Some False"]
  show ?thesis using h by (simp add: example_state_def)
qed



section \<open>Refining\<close>

lemma handleRefine_requests:
  "result s = Some r \<Longrightarrow>
   snd (handleRefine s p out) =
     [POST_api_refine (refineAnswer_body (originalQuestion s) (answer r) p (contextSourceIds s)
                         (sources r) (answerCloseness s))]"
  by (simp add: handleRefine_def Let_def refineAnswer_def)

lemma handleRefine_result:
  "result s = Some r \<Longrightarrow>
   result (fst (handleRefine s p out)) =
     (case api_result (js ''Refine'') out of
        Inr refined \<Rightarrow> Some \<lparr> answer = answer refined, sources = sources r,
                              answer_confidence = answer_confidence refined \<rparr>
      | Inl e \<Rightarrow> Some r)"
  by (simp add: handleRefine_def Let_def refineAnswer_def split: sum.splits)

lemma example_state_result: "result example_state = Some example_result"
  by (simp add: example_state_def)

text \<open>
  C1. A refinement of a shown result leaves a result whose sources are the same list as
  before. When the refine call returns a response, the answer and the answer confidence
  are the response's (its sources are not read); when the call fails, the result is the
  one shown before.
\<close>

theorem handleRefine_keeps_sources:
  assumes "result s = Some r"
  shows "\<exists>r'. result (fst (handleRefine s p out)) = Some r' \<and>
           sources r' = sources r \<and>
           (case api_result (js ''Refine'') out of
              Inr refined \<Rightarrow> answer r' = answer refined \<and>
                             answer_confidence r' = answer_confidence refined
            | Inl e \<Rightarrow> r' = r)"
  using handleRefine_result [OF assms, of p out] by (auto split: sum.splits)

text \<open>
  A refine response with a new answer, a new confidence and an empty source list: the
  two sources shown before are still shown.
\<close>

theorem handleRefine_keeps_sources_witness:
  "result example_state = Some example_result \<and>
   (\<exists>r'. result (fst (handleRefine example_state (js ''shorter'')
                        (FetchResponse 200 []
                           (Inr \<lparr> answer = js ''30 days.'', sources = [],
                                  answer_confidence = 0.8 \<rparr>)))) = Some r' \<and>
          sources r' = [example_source_1, example_source_2] \<and>
          answer r' = js ''30 days.'' \<and> answer_confidence r' = 0.8)"
proof -
  from handleRefine_keeps_sources [OF example_state_result, of "js ''shorter''"
      "FetchResponse 200 [] (Inr \<lparr> answer = js ''30 days.'', sources = [],
                                   answer_confidence = 0.8 \<rparr>)"]
  show ?thesis
    by (simp add: example_state_result api_result_def res_ok_def example_result_def)
qed

text \<open>
  C5. A refinement of a shown result sends exactly one request, a \<open>POST /api/refine\<close>,
  and no ask request. In its body \<open>sources\<close> is the source list of the shown result,
  \<open>selected_source_ids\<close> is the current context selection, \<open>original_answer\<close> is the
  shown answer, \<open>original_question\<close> is the question last asked, \<open>refinement_prompt\<close> is
  the instruction and \<open>answer_closeness\<close> is the current closeness.
\<close>

theorem handleRefine_request_verbatim:
  assumes "result s = Some r"
  shows "\<exists>body. snd (handleRefine s p out) = [POST_api_refine body] \<and>
           refine_sources body = sources r \<and>
           selected_source_ids body = contextSourceIds s \<and>
           original_answer body = answer r \<and>
           original_question body = originalQuestion s \<and>
           refinement_prompt body = p \<and>
           refine_answer_closeness body = answerCloseness s"
  unfolding handleRefine_requests [OF assms]
  by (simp add: refineAnswer_body_def)

text \<open>The refine request over the example result, with the first source as context.\<close>

theorem handleRefine_request_verbatim_witness:
  "result example_state = Some example_result \<and>
   (\<exists>body. snd (handleRefine example_state (js ''shorter'')
                   (FetchRejected (TypeError (js ''Failed to fetch'')))) =
              [POST_api_refine body] \<and>
           refine_sources body = [example_source_1, example_source_2] \<and>
           selected_source_ids body = [js ''1''] \<and>
           original_answer body = js ''Refund window is 30 days.'' \<and>
           original_question body = js ''What is the refund policy?'' \<and>
           refinement_prompt body = js ''shorter'' \<and>
           refine_answer_closeness body = 0.5)"
proof -
  from handleRefine_request_verbatim [OF example_state_result, of "js ''shorter''"
      "FetchRejected (TypeError (js ''Failed to fetch''))"]
  show ?thesis
    by (simp add: example_state_result)
       (simp add: example_state_def example_result_def App_init_def)
qed


section \<open>Editing the metadata of a snippet\<close>

lemma form_keys_distinct:
  "js ''language'' \<noteq> js ''heading''" "js ''language'' \<noteq> js ''category''"
  "js ''language'' \<noteq> js ''linked_snippets''" "js ''language'' \<noteq> js ''example_questions''"
  "js ''heading'' \<noteq> js ''category''" "js ''heading'' \<noteq> js ''linked_snippets''"
  "js ''heading'' \<noteq> js ''example_questions''" "js ''category'' \<noteq> js ''linked_snippets''"
  "js ''category'' \<noteq> js ''example_questions''"
  "js ''linked_snippets'' \<noteq> js ''example_questions''"
  by (simp_all add: js_def)

lemma map_of_set_or_delete:
  "map_of (if b then AList.update k v obj else AList.delete k obj) k' =
     (if k' = k then (if b then Some v else None) else map_of obj k')"
  by (simp add: update_conv' delete_conv')

lemma map_of_buildMetadata_meta:
  "map_of (buildMetadata_meta lower m f) k =
     (if k = js ''example_questions'' then
        (if tokens 0x0A (exampleQuestions f) \<noteq> []
         then Some (JArr (map JStr (tokens 0x0A (exampleQuestions f)))) else None)
      else if k = js ''linked_snippets'' then
        (if tokens 0x2C (linkedSnippets f) \<noteq> []
         then Some (JArr (map JStr (tokens 0x2C (linkedSnippets f)))) else None)
      else if k = js ''category'' then
        (if trim (category f) \<noteq> [] then Some (JStr (trim (category f))) else None)
      else if k = js ''heading'' then
        (if trim (heading f) \<noteq> [] then Some (JStr (trim (heading f))) else None)
      else if k = js ''language'' then
        (if trim (language f) \<noteq> [] then Some (JStr (lower (trim (language f)))) else None)
      else meta_get m k)"
proof -
  have base: "map_of (case m of None \<Rightarrow> [] | Some obj \<Rightarrow> obj) k = meta_get m k"
    by (cases m) (simp_all add: meta_get_def)
  show ?thesis
    unfolding buildMetadata_meta_def Let_def map_of_set_or_delete length_greater_0_conv base
    by (rule refl)
qed

lemma meta_get_buildMetadata:
  "meta_get (buildMetadata lower m f) k = map_of (buildMetadata_meta lower m f) k"
  by (simp add: buildMetadata_def meta_get_def Let_def Object_keys_def)

lemma buildMetadata_None_iff:
  "buildMetadata lower m f = None \<longleftrightarrow> (\<forall>k. map_of (buildMetadata_meta lower m f) k = None)"
proof -
  have "buildMetadata lower m f = None \<longleftrightarrow> buildMetadata_meta lower m f = []"
    by (simp add: buildMetadata_def Let_def Object_keys_def)
  also have "\<dots> \<longleftrightarrow> map_of (buildMetadata_meta lower m f) = Map.empty"
    by simp
  finally show ?thesis by (simp add: fun_eq_iff)
qed



text \<open>
  C10, as amended. \<open>buildMetadata\<close> stores the language trimmed and lower-cased, and the
  heading and the category trimmed, and removes each of the three keys when its input
  trims to the empty string. It stores \<open>linked_snippets\<close> as the non-empty trimmed
  pieces between commas and \<open>example_questions\<close> as the non-empty trimmed lines, and
  removes either key when there is no such piece or line. Every other key keeps the
  value the snippet's metadata had. The result is \<open>null\<close> exactly when the object has no
  key left, that is when the five inputs give nothing to store and the snippet's
  metadata had no other key.
\<close>

theorem buildMetadata_normalizes:
  "meta_get (buildMetadata lower m f) (js ''language'') =
     (if trim (language f) \<noteq> [] then Some (JStr (lower (trim (language f)))) else None) \<and>
   meta_get (buildMetadata lower m f) (js ''heading'') =
     (if trim (heading f) \<noteq> [] then Some (JStr (trim (heading f))) else None) \<and>
   meta_get (buildMetadata lower m f) (js ''category'') =
     (if trim (category f) \<noteq> [] then Some (JStr (trim (category f))) else None) \<and>
   meta_get (buildMetadata lower m f) (js ''linked_snippets'') =
     (if tokens 0x2C (linkedSnippets f) \<noteq> []
      then Some (JArr (map JStr (tokens 0x2C (linkedSnippets f)))) else None) \<and>
   meta_get (buildMetadata lower m f) (js ''example_questions'') =
     (if tokens 0x0A (exampleQuestions f) \<noteq> []
      then Some (JArr (map JStr (tokens 0x0A (exampleQuestions f)))) else None) \<and>
   (\<forall>k. k \<notin> set form_keys \<longrightarrow> meta_get (buildMetadata lower m f) k = meta_get m k) \<and>
   (buildMetadata lower m f = None \<longleftrightarrow> Object_keys (buildMetadata_meta lower m f) = []) \<and>
   (buildMetadata lower m f = None \<longleftrightarrow>
      trim (language f) = [] \<and> trim (heading f) = [] \<and> trim (category f) = [] \<and>
      tokens 0x2C (linkedSnippets f) = [] \<and> tokens 0x0A (exampleQuestions f) = [] \<and>
      (\<forall>k. k \<notin> set form_keys \<longrightarrow> meta_get m k = None))"
proof -
  note d = form_keys_distinct form_keys_distinct [symmetric]
  have 1: "meta_get (buildMetadata lower m f) (js ''language'') =
     (if trim (language f) \<noteq> [] then Some (JStr (lower (trim (language f)))) else None)"
    unfolding meta_get_buildMetadata map_of_buildMetadata_meta
    by (simp only: d if_False if_True refl)
  have 2: "meta_get (buildMetadata lower m f) (js ''heading'') =
     (if trim (heading f) \<noteq> [] then Some (JStr (trim (heading f))) else None)"
    unfolding meta_get_buildMetadata map_of_buildMetadata_meta
    by (simp only: d if_False if_True refl)
  have 3: "meta_get (buildMetadata lower m f) (js ''category'') =
     (if trim (category f) \<noteq> [] then Some (JStr (trim (category f))) else None)"
    unfolding meta_get_buildMetadata map_of_buildMetadata_meta
    by (simp only: d if_False if_True refl)
  have 4: "meta_get (buildMetadata lower m f) (js ''linked_snippets'') =
     (if tokens 0x2C (linkedSnippets f) \<noteq> []
      then Some (JArr (map JStr (tokens 0x2C (linkedSnippets f)))) else None)"
    unfolding meta_get_buildMetadata map_of_buildMetadata_meta
    by (simp only: d if_False if_True refl)
  have 5: "meta_get (buildMetadata lower m f) (js ''example_questions'') =
     (if tokens 0x0A (exampleQuestions f) \<noteq> []
      then Some (JArr (map JStr (tokens 0x0A (exampleQuestions f)))) else None)"
    unfolding meta_get_buildMetadata map_of_buildMetadata_meta
    by (simp only: d if_False if_True refl)
  have 6: "meta_get (buildMetadata lower m f) k = meta_get m k" if "k \<notin> set form_keys" for k
  proof -
    from that have "k \<noteq> js ''language''" "k \<noteq> js ''heading''" "k \<noteq> js ''category''"
      "k \<noteq> js ''linked_snippets''" "k \<noteq> js ''example_questions''"
      by (simp_all add: form_keys_def)
    then show ?thesis
      unfolding meta_get_buildMetadata map_of_buildMetadata_meta by (simp only: if_False)
  qed
  have 7: "buildMetadata lower m f = None \<longleftrightarrow> Object_keys (buildMetadata_meta lower m f) = []"
    by (simp add: buildMetadata_def Let_def)
  have 8: "buildMetadata lower m f = None \<longleftrightarrow>
      trim (language f) = [] \<and> trim (heading f) = [] \<and> trim (category f) = [] \<and>
      tokens 0x2C (linkedSnippets f) = [] \<and> tokens 0x0A (exampleQuestions f) = [] \<and>
      (\<forall>k. k \<notin> set form_keys \<longrightarrow> meta_get m k = None)" (is "?L \<longleftrightarrow> ?R")
  proof
    assume ?L
    then have n: "meta_get (buildMetadata lower m f) k = None" for k
      by (simp add: meta_get_def)
    have "trim (language f) = []" using 1 by (simp add: n split: if_splits)
    moreover have "trim (heading f) = []" using 2 by (simp add: n split: if_splits)
    moreover have "trim (category f) = []" using 3 by (simp add: n split: if_splits)
    moreover have "tokens 0x2C (linkedSnippets f) = []" using 4 by (simp add: n split: if_splits)
    moreover have "tokens 0x0A (exampleQuestions f) = []" using 5 by (simp add: n split: if_splits)
    moreover have "\<forall>k. k \<notin> set form_keys \<longrightarrow> meta_get m k = None" using 6 by (simp add: n)
    ultimately show ?R by blast
  next
    assume r: ?R
    have "map_of (buildMetadata_meta lower m f) k = None" for k
    proof (cases "k \<in> set form_keys")
      case True
      then show ?thesis
        using r 1 2 3 4 5 unfolding meta_get_buildMetadata by (auto simp add: form_keys_def)
    next
      case False
      then show ?thesis
        using r 6 [OF False] unfolding meta_get_buildMetadata by simp
    qed
    then show ?L unfolding buildMetadata_None_iff by simp
  qed
  from 1 2 3 4 5 6 7 8 show ?thesis by blast
qed

text \<open>
  An edit of a snippet that had a linked snippet and a document URL: the language " DE "
  is stored as "de", the linked snippets "a, b ,,c " as a, b and c, the blank heading is
  absent, and the document URL is kept.
\<close>

theorem buildMetadata_normalizes_witness:
  "js ''source_document_url'' \<notin> set form_keys \<and>
   meta_get (buildMetadata ascii_toLowerCase
               (Some [(js ''linked_snippets'', JArr [JStr (js ''a'')]),
                      (js ''source_document_url'', JStr (js ''u''))])
               \<lparr> language = js '' DE '', heading = js '' '', category = [],
                 linkedSnippets = js ''a, b ,,c '', exampleQuestions = [] \<rparr>)
            (js ''language'') = Some (JStr (js ''de'')) \<and>
   meta_get (buildMetadata ascii_toLowerCase
               (Some [(js ''linked_snippets'', JArr [JStr (js ''a'')]),
                      (js ''source_document_url'', JStr (js ''u''))])
               \<lparr> language = js '' DE '', heading = js '' '', category = [],
                 linkedSnippets = js ''a, b ,,c '', exampleQuestions = [] \<rparr>)
            (js ''heading'') = None \<and>
   meta_get (buildMetadata ascii_toLowerCase
               (Some [(js ''linked_snippets'', JArr [JStr (js ''a'')]),
                      (js ''source_document_url'', JStr (js ''u''))])
               \<lparr> language = js '' DE '', heading = js '' '', category = [],
                 linkedSnippets = js ''a, b ,,c '', exampleQuestions = [] \<rparr>)
            (js ''linked_snippets'') =
     Some (JArr [JStr (js ''a''), JStr (js ''b''), JStr (js ''c'')]) \<and>
   meta_get (buildMetadata ascii_toLowerCase
               (Some [(js ''linked_snippets'', JArr [JStr (js ''a'')]),
                      (js ''source_document_url'', JStr (js ''u''))])
               \<lparr> language = js '' DE '', heading = js '' '', category = [],
                 linkedSnippets = js ''a, b ,,c '', exampleQuestions = [] \<rparr>)
            (js ''source_document_url'') = Some (JStr (js ''u''))"
proof -
  have k: "js ''source_document_url'' \<notin> set form_keys"
    by (simp add: form_keys_def js_def)
  have l: "trim (js '' DE '') = js ''DE''" "ascii_toLowerCase (js ''DE'') = js ''de''"
    by (simp_all add: trim_def js_def isWhiteSpace_def ascii_toLowerCase_def)
  have h: "trim (js '' '') = []"
    by (simp add: trim_def js_def isWhiteSpace_def)
  have t: "tokens 0x2C (js ''a, b ,,c '') = [js ''a'', js ''b'', js ''c'']"
    by (simp add: tokens_def trim_def js_def isWhiteSpace_def)
  have u: "js ''DE'' \<noteq> []" "js ''source_document_url'' \<noteq> js ''linked_snippets''"
    by (simp_all add: js_def)
  from buildMetadata_normalizes [of ascii_toLowerCase
      "Some [(js ''linked_snippets'', JArr [JStr (js ''a'')]),
             (js ''source_document_url'', JStr (js ''u''))]"
      "\<lparr> language = js '' DE '', heading = js '' '', category = [],
         linkedSnippets = js ''a, b ,,c '', exampleQuestions = [] \<rparr>"]
  show ?thesis
    using k by (simp add: l h t u meta_get_def form_keys_distinct)
qed

text \<open>
  The claim as stated fails: the input "," for the linked snippets is not blank and has
  no non-empty piece; \<open>buildMetadata\<close> does not store the empty list under
  \<open>linked_snippets\<close> but removes the key, and here returns \<open>null\<close>.
\<close>

theorem buildMetadata_counterexample:
  "trim (js '','') \<noteq> [] \<and> tokens 0x2C (js '','') = [] \<and>
   meta_get (buildMetadata ascii_toLowerCase
               (Some [(js ''linked_snippets'', JArr [JStr (js ''a'')])])
               \<lparr> language = [], heading = [], category = [], linkedSnippets = js '','',
                 exampleQuestions = [] \<rparr>)
            (js ''linked_snippets'') \<noteq> Some (JArr (map JStr (tokens 0x2C (js '',''))))  \<and>
   buildMetadata ascii_toLowerCase
       (Some [(js ''linked_snippets'', JArr [JStr (js ''a'')])])
       \<lparr> language = [], heading = [], category = [], linkedSnippets = js '','',
         exampleQuestions = [] \<rparr> = None"
proof -
  have t: "trim (js '','') \<noteq> []" "tokens 0x2C (js '','') = []" "tokens 0x0A [] = []"
    "trim [] = []"
    by (simp_all add: tokens_def trim_def js_def isWhiteSpace_def)
  have b: "buildMetadata ascii_toLowerCase
       (Some [(js ''linked_snippets'', JArr [JStr (js ''a'')])])
       \<lparr> language = [], heading = [], category = [], linkedSnippets = js '','',
         exampleQuestions = [] \<rparr> = None"
    by (simp add: buildMetadata_def buildMetadata_meta_def Let_def Object_keys_def t
          form_keys_distinct form_keys_distinct [symmetric])
  show ?thesis unfolding b by (simp add: t meta_get_def)
qed


section \<open>The fallback of the answer synthesizer\<close>

text \<open>
  C7. With at least one ranked source and no generated text (no generation capability
  configured, or none reachable), the answer is the text of the top-ranked source, the
  answer confidence is that source's confidence, and the sources are the ranked ones.
\<close>

theorem synthesize_fallback:
  assumes "ranked \<noteq> []" and "generate gen (prompt q ranked c) = None"
  shows "answer (synthesize gen prompt conf q ranked c) = source_text (hd ranked) \<and>
         answer_confidence (synthesize gen prompt conf q ranked c) =
           snippet_confidence (hd ranked) \<and>
         sources (synthesize gen prompt conf q ranked c) = ranked"
  using assms by (cases ranked) (simp_all add: synthesize_def)

text \<open>The example scenario of the specification, with generation disabled.\<close>

theorem synthesize_fallback_witness:
  "[example_source_1, example_source_2] \<noteq> [] \<and>
   generate None (js ''What is the refund policy?'') = None \<and>
   answer (synthesize None (\<lambda>q ranked c. q) (\<lambda>ranked. 1)
             (js ''What is the refund policy?'') [example_source_1, example_source_2] 0.5) =
     js ''Refund window is 30 days.'' \<and>
   answer_confidence (synthesize None (\<lambda>q ranked c. q) (\<lambda>ranked. 1)
             (js ''What is the refund policy?'') [example_source_1, example_source_2] 0.5) =
     0.85 \<and>
   source_id (hd (sources (synthesize None (\<lambda>q ranked c. q) (\<lambda>ranked. 1)
             (js ''What is the refund policy?'') [example_source_1, example_source_2] 0.5))) =
     js ''1''"
proof -
  have a: "[example_source_1, example_source_2] \<noteq> []" by simp
  have b: "generate None (js ''What is the refund policy?'') = None"
    by (simp add: generate_def)
  from synthesize_fallback [of "[example_source_1, example_source_2]" None
      "\<lambda>q ranked c. q" "js ''What is the refund policy?''" "0.5" "\<lambda>ranked. 1", OF a b]
  show ?thesis using b by (simp add: example_source_1_def)
qed


end
